theory Spec2Isabelle
  imports Main
begin

section \<open>The metric keys of \<open>src/tracing/metric_keys.h\<close>\<close>

text \<open>
  The header declares, inside \<open>namespace chip { namespace Tracing { ... } }\<close>, one type
  alias and ten named string constants:
  \<^verbatim>\<open>
  typedef const char * MetricKey;

  constexpr MetricKey kMetricDiscoveryOverBLE      = "disc-over-ble";
  constexpr MetricKey kMetricDiscoveryOnNetwork    = "disc-on-nw";
  constexpr MetricKey kMetricPASESession           = "pase-session";
  constexpr MetricKey kMetricPASESessionPair       = "pase-session-pair";
  constexpr MetricKey kMetricPASESessionBLE        = "pase-session-ble";
  constexpr MetricKey kMetricAttestationResult     = "attestation-result";
  constexpr MetricKey kMetricAttestationOverridden = "attestation-overridden";
  constexpr MetricKey kMetricCASESession           = "case-session";
  constexpr MetricKey kMetricCASESessionEstState   = "case-conn-est";
  constexpr MetricKey kMetricWiFiRSSI              = "wifi_rssi";
  \<close>
  Two views of it are given. The first is the value view: each constant is a HOL
  constant holding the characters of its literal. The second is the declaration view:
  the header as the list of its namespace-scope declarations, with the specifiers and
  types the source writes, so that statements about the kind of every declaration can
  be made.
\<close>

subsection \<open>The value view\<close>

text \<open>\<open>typedef const char * MetricKey;\<close>: a key is a read-only character string.\<close>

type_synonym MetricKey = string

definition kMetricDiscoveryOverBLE :: MetricKey where
  "kMetricDiscoveryOverBLE = ''disc-over-ble''"

definition kMetricDiscoveryOnNetwork :: MetricKey where
  "kMetricDiscoveryOnNetwork = ''disc-on-nw''"

definition kMetricPASESession :: MetricKey where
  "kMetricPASESession = ''pase-session''"

definition kMetricPASESessionPair :: MetricKey where
  "kMetricPASESessionPair = ''pase-session-pair''"

definition kMetricPASESessionBLE :: MetricKey where
  "kMetricPASESessionBLE = ''pase-session-ble''"

definition kMetricAttestationResult :: MetricKey where
  "kMetricAttestationResult = ''attestation-result''"

definition kMetricAttestationOverridden :: MetricKey where
  "kMetricAttestationOverridden = ''attestation-overridden''"

definition kMetricCASESession :: MetricKey where
  "kMetricCASESession = ''case-session''"

definition kMetricCASESessionEstState :: MetricKey where
  "kMetricCASESessionEstState = ''case-conn-est''"

definition kMetricWiFiRSSI :: MetricKey where
  "kMetricWiFiRSSI = ''wifi_rssi''"

text \<open>The list of supported metric keys, in the order the header declares them.\<close>

definition metric_keys :: "MetricKey list" where
  "metric_keys =
    [kMetricDiscoveryOverBLE, kMetricDiscoveryOnNetwork, kMetricPASESession,
     kMetricPASESessionPair, kMetricPASESessionBLE, kMetricAttestationResult,
     kMetricAttestationOverridden, kMetricCASESession, kMetricCASESessionEstState,
     kMetricWiFiRSSI]"

subsection \<open>The declaration view\<close>

text \<open>
  The types the header writes: \<open>char\<close>, a \<open>const\<close> qualification, a pointer, and a
  type named through a typedef.
\<close>

datatype CType = Char | Const CType | Pointer CType | Named string

text \<open>An initialiser is absent, a string literal, or some other expression.\<close>

datatype Initializer = NoInit | StringLiteral string | OtherExpr

text \<open>
  A namespace-scope declaration: a typedef (aliased type, new name), a variable
  (whether it carries \<open>constexpr\<close>, its declared type, its name, its initialiser), or a
  function (its name). Statements, and with them control flow, can only stand in the
  body of a function.
\<close>

datatype Declaration =
    Typedef CType string
  | Variable bool CType string Initializer
  | Function string

text \<open>Lines 27 and 32 to 41 of the header, one entry per declaration.\<close>

definition metric_keys_h :: "Declaration list" where
  "metric_keys_h =
    [Typedef (Pointer (Const Char)) ''MetricKey'',
     Variable True (Named ''MetricKey'') ''kMetricDiscoveryOverBLE'' (StringLiteral ''disc-over-ble''),
     Variable True (Named ''MetricKey'') ''kMetricDiscoveryOnNetwork'' (StringLiteral ''disc-on-nw''),
     Variable True (Named ''MetricKey'') ''kMetricPASESession'' (StringLiteral ''pase-session''),
     Variable True (Named ''MetricKey'') ''kMetricPASESessionPair'' (StringLiteral ''pase-session-pair''),
     Variable True (Named ''MetricKey'') ''kMetricPASESessionBLE'' (StringLiteral ''pase-session-ble''),
     Variable True (Named ''MetricKey'') ''kMetricAttestationResult'' (StringLiteral ''attestation-result''),
     Variable True (Named ''MetricKey'') ''kMetricAttestationOverridden'' (StringLiteral ''attestation-overridden''),
     Variable True (Named ''MetricKey'') ''kMetricCASESession'' (StringLiteral ''case-session''),
     Variable True (Named ''MetricKey'') ''kMetricCASESessionEstState'' (StringLiteral ''case-conn-est''),
     Variable True (Named ''MetricKey'') ''kMetricWiFiRSSI'' (StringLiteral ''wifi_rssi'')]"

text \<open>The type a typedef name stands for, among the declarations of the file.\<close>

fun typedef_lookup :: "Declaration list \<Rightarrow> string \<Rightarrow> CType option" where
  "typedef_lookup [] n = None"
| "typedef_lookup (Typedef t m # ds) n = (if m = n then Some t else typedef_lookup ds n)"
| "typedef_lookup (Variable cx t m i # ds) n = typedef_lookup ds n"
| "typedef_lookup (Function m # ds) n = typedef_lookup ds n"

fun resolve :: "Declaration list \<Rightarrow> CType \<Rightarrow> CType" where
  "resolve ds (Named n) = (case typedef_lookup ds n of Some t \<Rightarrow> t | None \<Rightarrow> Named n)"
| "resolve ds t = t"

text \<open>
  A declaration is an immutable compile-time string constant of type \<open>MetricKey\<close> when it
  is a variable that is \<open>constexpr\<close> (known at compile time, and so itself \<open>const\<close>),
  whose declared type is the name \<open>MetricKey\<close>, standing for a pointer to \<open>const char\<close>
  (the characters cannot be written through it), and whose initialiser is a string literal.
\<close>

fun is_string_constant :: "Declaration list \<Rightarrow> Declaration \<Rightarrow> bool" where
  "is_string_constant ds (Variable cx t n (StringLiteral s)) =
     (cx \<and> t = Named ''MetricKey'' \<and> resolve ds t = Pointer (Const Char))"
| "is_string_constant ds d = False"

fun is_function :: "Declaration \<Rightarrow> bool" where
  "is_function (Function n) = True"
| "is_function d = False"

text \<open>
  Mutable state is a variable that is neither \<open>constexpr\<close> nor declared with a
  \<open>const\<close>-qualified type.
\<close>

fun is_const_type :: "CType \<Rightarrow> bool" where
  "is_const_type (Const t) = True"
| "is_const_type t = False"

fun is_mutable_state :: "Declaration list \<Rightarrow> Declaration \<Rightarrow> bool" where
  "is_mutable_state ds (Variable cx t n i) = (\<not> cx \<and> \<not> is_const_type (resolve ds t))"
| "is_mutable_state ds d = False"

text \<open>The name and the characters of every variable initialised with a string literal.\<close>

fun declared_strings :: "Declaration list \<Rightarrow> (string \<times> string) list" where
  "declared_strings [] = []"
| "declared_strings (Variable cx t n (StringLiteral s) # ds) = (n, s) # declared_strings ds"
| "declared_strings (d # ds) = declared_strings ds"

subsection \<open>The two views agree\<close>

lemmas metric_key_defs =
  kMetricDiscoveryOverBLE_def kMetricDiscoveryOnNetwork_def kMetricPASESession_def
  kMetricPASESessionPair_def kMetricPASESessionBLE_def kMetricAttestationResult_def
  kMetricAttestationOverridden_def kMetricCASESession_def kMetricCASESessionEstState_def
  kMetricWiFiRSSI_def

lemma declared_strings_metric_keys_h:
  "map snd (declared_strings metric_keys_h) = metric_keys"
  by (simp add: metric_keys_h_def metric_keys_def metric_key_defs)

lemma typedef_lookup_MetricKey:
  "typedef_lookup metric_keys_h ''MetricKey'' = Some (Pointer (Const Char))"
  by (simp add: metric_keys_h_def)

subsection \<open>Properties of the header\<close>

text \<open>
  Claim C1. Every declaration of the header other than the typedef of \<open>MetricKey\<close> is an
  immutable compile-time string constant of type \<open>MetricKey\<close>: removing the string
  constants from the declarations leaves the typedef alone, and there are ten such
  constants. The header declares no function (so there is no statement and no control
  flow in it) and no mutable state.
\<close>

theorem metric_keys_h_only_string_constants:
  "filter (\<lambda>d. \<not> is_string_constant metric_keys_h d) metric_keys_h =
     [Typedef (Pointer (Const Char)) ''MetricKey'']
   \<and> length (filter (is_string_constant metric_keys_h) metric_keys_h) = 10
   \<and> filter is_function metric_keys_h = []
   \<and> filter (is_mutable_state metric_keys_h) metric_keys_h = []"
  by (simp add: metric_keys_h_def)

text \<open>
  Claim C2. The key set holds a constant whose characters are \<open>pase-session\<close>, declared
  under the name \<open>kMetricPASESession\<close>, and one whose characters are \<open>case-session\<close>,
  declared under the name \<open>kMetricCASESession\<close>.
\<close>

theorem metric_keys_pase_and_case_session:
  "kMetricPASESession = ''pase-session''
   \<and> kMetricCASESession = ''case-session''
   \<and> kMetricPASESession \<in> set metric_keys
   \<and> kMetricCASESession \<in> set metric_keys
   \<and> map_of (declared_strings metric_keys_h) ''kMetricPASESession'' = Some ''pase-session''
   \<and> map_of (declared_strings metric_keys_h) ''kMetricCASESession'' = Some ''case-session''"
  by (simp add: metric_keys_def metric_keys_h_def kMetricPASESession_def kMetricCASESession_def)

text \<open>
  Claim C3. The ten constants, from \<open>kMetricDiscoveryOverBLE\<close> to \<open>kMetricWiFiRSSI\<close>, have
  pairwise distinct string values (and pairwise distinct names): no two of them name the
  same key string.
\<close>

theorem metric_keys_distinct:
  "length metric_keys = 10
   \<and> distinct metric_keys
   \<and> hd metric_keys = kMetricDiscoveryOverBLE
   \<and> last metric_keys = kMetricWiFiRSSI
   \<and> distinct (map fst (declared_strings metric_keys_h))
   \<and> distinct (map snd (declared_strings metric_keys_h))"
  by (simp add: metric_keys_def metric_keys_h_def metric_key_defs)

end
